theory Spec2Isabelle
  imports Main "HOL-Library.Sublist"
begin

section \<open>The PDF-to-Word conversion service (vercel-koa2/index.js)\<close>

text \<open>
  The service is one Express application with a module-level history list and two
  directories on disk. The shallow embedding below follows index.js line by line:
  \<^item> the mutable world (the files on disk and \<open>conversionHistory\<close>) is a record that
    every handler takes and returns;
  \<^item> every call that may throw (\<open>fs.readFileSync\<close>, \<open>pdfParse\<close>, \<open>Packer.toBuffer\<close>,
    \<open>fs.writeFileSync\<close>, \<open>fs.unlinkSync\<close>) returns a sum, \<open>Inl\<close> carrying the thrown
    \<open>Error\<close>; the \<open>try\<close>/\<open>catch\<close> of the handler is a case distinction on it;
  \<^item> what the handler cannot decide itself (the clock, the random number, the two
    libraries, a failing disk) is read from a record \<open>env\<close>, one per request;
  \<^item> JavaScript object literals are association lists from keys to values, so a field
    that the literal does not mention is absent from the list.
  Requests are handled one after the other; interleavings of the two \<open>await\<close>
  points are not part of this model. A thrown value is an \<open>Error\<close> with its message, as
  Node and the two libraries raise them; the output of \<open>console.log\<close> and
  \<open>console.error\<close> is not part of the world.
\<close>

subsection \<open>Values, errors, responses\<close>

datatype js_error = Error (message: string)

type_synonym buffer = "nat list"

datatype jsval = JString string | JBool bool | JDate nat

type_synonym jsobj = "(string \<times> jsval) list"

definition field :: "string \<Rightarrow> jsobj \<Rightarrow> jsval option" where
  "field k obj = map_of obj k"

datatype body = Obj (members: jsobj) | Arr (elements: "jsobj list")

record response =
  status_code :: nat
  body :: body

text \<open>\<open>res.json(b)\<close> answers with the default status 200, \<open>res.status(c).json(b)\<close> with \<open>c\<close>.\<close>

definition res_json :: "body \<Rightarrow> response" where
  "res_json b = \<lparr>status_code = 200, body = b\<rparr>"

definition res_status_json :: "nat \<Rightarrow> body \<Rightarrow> response" where
  "res_status_json c b = \<lparr>status_code = c, body = b\<rparr>"

text \<open>
  The messages of index.js are Chinese; they are kept as their UTF-8 bytes.
  \<open>msg_only_pdf\<close> is line 43 ("only PDF files are supported"), \<open>msg_no_file\<close> line 64
  ("no file uploaded"), \<open>msg_converted\<close> line 123 ("conversion succeeded"),
  \<open>msg_conversion_failed\<close> line 144 ("conversion failed"), \<open>msg_internal_error\<close> line 176
  ("internal server error").
\<close>

definition msg_only_pdf :: string where
  "msg_only_pdf = [CHR 0xE5, CHR 0x8F, CHR 0xAA, CHR 0xE6, CHR 0x94, CHR 0xAF, CHR 0xE6, CHR 0x8C,
     CHR 0x81, CHR ''P'', CHR ''D'', CHR ''F'', CHR 0xE6, CHR 0x96, CHR 0x87, CHR 0xE4, CHR 0xBB, CHR 0xB6]"

definition msg_no_file :: string where
  "msg_no_file = [CHR 0xE6, CHR 0xB2, CHR 0xA1, CHR 0xE6, CHR 0x9C, CHR 0x89, CHR 0xE4, CHR 0xB8,
     CHR 0x8A, CHR 0xE4, CHR 0xBC, CHR 0xA0, CHR 0xE6, CHR 0x96, CHR 0x87, CHR 0xE4, CHR 0xBB, CHR 0xB6]"

definition msg_converted :: string where
  "msg_converted = [CHR 0xE8, CHR 0xBD, CHR 0xAC, CHR 0xE6, CHR 0x8D, CHR 0xA2, CHR 0xE6, CHR 0x88,
     CHR 0x90, CHR 0xE5, CHR 0x8A, CHR 0x9F]"

definition msg_conversion_failed :: string where
  "msg_conversion_failed = [CHR 0xE8, CHR 0xBD, CHR 0xAC, CHR 0xE6, CHR 0x8D, CHR 0xA2, CHR 0xE5,
     CHR 0xA4, CHR 0xB1, CHR 0xE8, CHR 0xB4, CHR 0xA5]"

definition msg_internal_error :: string where
  "msg_internal_error = [CHR 0xE6, CHR 0x9C, CHR 0x8D, CHR 0xE5, CHR 0x8A, CHR 0xA1, CHR 0xE5,
     CHR 0x99, CHR 0xA8, CHR 0xE5, CHR 0x86, CHR 0x85, CHR 0xE9, CHR 0x83, CHR 0xA8, CHR 0xE9, CHR 0x94,
     CHR 0x99, CHR 0xE8, CHR 0xAF, CHR 0xAF]"

subsection \<open>Strings: number to string, \<open>String.prototype.replace\<close>, \<open>path.join\<close>\<close>

text \<open>
  \<open>Date.now()\<close> and \<open>Math.round(Math.random() * 1E9)\<close> are non-negative integers below
  \<open>10^21\<close>; JavaScript prints such a number as its decimal digits, most significant
  first, both for \<open>.toString()\<close> and when \<open>+\<close> concatenates it to a string.
\<close>

definition digit_char :: "nat \<Rightarrow> char" where
  "digit_char d = ''0123456789'' ! d"

fun toString :: "nat \<Rightarrow> string" where
  "toString n = (if n < 10 then [digit_char n] else toString (n div 10) @ [digit_char (n mod 10)])"

declare toString.simps [simp del]

text \<open>
  \<open>s.replace(pat, rep)\<close> with a string pattern replaces the first occurrence of \<open>pat\<close>
  in \<open>s\<close>, scanning from the left, and leaves \<open>s\<close> as it is when there is none. (The
  replacement used by index.js is the empty string, so the \<open>$\<close> patterns of JavaScript
  play no role.)
\<close>

fun replace :: "string \<Rightarrow> string \<Rightarrow> string \<Rightarrow> string" where
  "replace pat rep [] = (if pat = [] then rep else [])"
| "replace pat rep (c # cs) =
     (if prefix pat (c # cs) then rep @ drop (length pat) (c # cs)
      else c # replace pat rep cs)"

text \<open>\<open>path.join(dir, name)\<close> for a directory name and a file name without separators.\<close>

definition path_join :: "string \<Rightarrow> string \<Rightarrow> string" where
  "path_join dir name = dir @ ''/'' @ name"

subsection \<open>The world: files on disk and the history list\<close>

text \<open>
  \<open>fs\<close> maps a path to the contents of the file there. Directories are not tracked:
  creating \<open>uploads\<close> and \<open>downloads\<close> on demand (lines 26 to 28 and 53 to 55) changes
  no file, and a write into a directory that is missing or not writable is one of the
  faults that \<open>env\<close> injects. \<open>conversionHistory\<close> is the module-level array of line 58.
\<close>

record state =
  fs :: "string \<rightharpoonup> buffer"
  conversionHistory :: "jsobj list"

definition initial_state :: state where
  "initial_state = \<lparr>fs = Map.empty, conversionHistory = []\<rparr>"

text \<open>The file part of a multipart request, as multer hands it to the callbacks.\<close>

record multer_file =
  fieldname :: string
  originalname :: string
  mimetype :: string
  content :: buffer

text \<open>\<open>req.file\<close> after the disk storage has stored the upload.\<close>

record staged_file = multer_file +
  filename :: string
  path :: string

text \<open>The docx objects built on lines 80 to 95.\<close>

record textRun =
  text_tr :: string
  size_tr :: nat
  font_tr :: string

datatype docx_paragraph = Paragraph "textRun list"

datatype docx_section = Section "docx_paragraph list"

datatype docx_document = Document "docx_section list"

record pdfData =
  text_pd :: string

text \<open>
  Everything a single request reads from outside the program: the two clock readings
  and the random number of the upload, the outcome of the two library calls, the faults
  of the disk, and the clock readings of the two history records.
\<close>

record env =
  date_now_upload :: nat
  math_random :: nat
  stage_fault :: "js_error option"
  read_fault :: "js_error option"
  pdfParse :: "buffer \<Rightarrow> js_error + pdfData"
  toBuffer :: "docx_document \<Rightarrow> js_error + buffer"
  write_fault :: "js_error option"
  date_now_completed :: nat
  new_date_completed :: nat
  unlink_fault :: "js_error option"
  date_now_failed :: nat
  new_date_failed :: nat

subsection \<open>The \<open>fs\<close> calls\<close>

definition readFileSync :: "js_error option \<Rightarrow> (string \<rightharpoonup> buffer) \<Rightarrow> string \<Rightarrow> js_error + buffer" where
  "readFileSync fault files p =
     (case fault of
        Some e \<Rightarrow> Inl e
      | None \<Rightarrow> (case files p of None \<Rightarrow> Inl (Error ''ENOENT: no such file or directory'') | Some b \<Rightarrow> Inr b))"

definition writeFileSync ::
  "js_error option \<Rightarrow> (string \<rightharpoonup> buffer) \<Rightarrow> string \<Rightarrow> buffer \<Rightarrow> js_error + (string \<rightharpoonup> buffer)" where
  "writeFileSync fault files p b =
     (case fault of Some e \<Rightarrow> Inl e | None \<Rightarrow> Inr (files(p \<mapsto> b)))"

definition unlinkSync ::
  "js_error option \<Rightarrow> (string \<rightharpoonup> buffer) \<Rightarrow> string \<Rightarrow> js_error + (string \<rightharpoonup> buffer)" where
  "unlinkSync fault files p =
     (case fault of
        Some e \<Rightarrow> Inl e
      | None \<Rightarrow> (case files p of None \<Rightarrow> Inl (Error ''ENOENT: no such file or directory'')
                 | Some b \<Rightarrow> Inr (files(p := None))))"

text \<open>\<open>xs.slice(b, e)\<close> for non-negative indices; the array itself is not changed.\<close>

definition slice :: "nat \<Rightarrow> nat \<Rightarrow> 'a list \<Rightarrow> 'a list" where
  "slice b e xs = drop b (take e xs)"

text \<open>\<open>a || d\<close> on a string that may be undefined: the empty string is falsy as well.\<close>

definition or_default :: "string option \<Rightarrow> string \<Rightarrow> string" where
  "or_default a d = (case a of None \<Rightarrow> d | Some v \<Rightarrow> if v = [] then d else v)"

subsection \<open>The upload: \<open>multer.diskStorage\<close> and \<open>upload.single('pdf')\<close> (lines 23 to 49)\<close>

definition storage_destination :: string where
  "storage_destination = ''uploads''"

definition storage_filename :: "env \<Rightarrow> multer_file \<Rightarrow> string" where
  "storage_filename env file =
     (let uniqueSuffix = toString (date_now_upload env) @ ''-'' @ toString (math_random env)
      in fieldname file @ ''-'' @ uniqueSuffix @ ''.pdf'')"

definition fileFilter :: "multer_file \<Rightarrow> js_error + bool" where
  "fileFilter file =
     (if mimetype file = ''application/pdf'' then Inr True else Inl (Error msg_only_pdf))"

definition fileSize :: nat where
  "fileSize = 10 * 1024 * 1024"

text \<open>
  The object that multer attaches as \<open>req.file\<close> once the disk storage has stored the
  upload: the fields of the file part, the name that the \<open>filename\<close> callback chose and
  the path under the directory that the \<open>destination\<close> callback chose.
\<close>

definition req_file :: "env \<Rightarrow> multer_file \<Rightarrow> staged_file" where
  "req_file env file =
     (let name = storage_filename env file
      in \<lparr>fieldname = fieldname file, originalname = originalname file,
          mimetype = mimetype file, content = content file,
          filename = name, path = path_join storage_destination name\<rparr>)"

text \<open>
  \<open>upload.single('pdf')\<close> is multer's middleware; index.js supplies its callbacks and its
  limit. What multer does with them is its documented contract: a request without a
  file part goes on with \<open>req.file\<close> undefined; a file in a field other than \<open>pdf\<close> is
  refused (\<open>Unexpected field\<close>); then \<open>fileFilter\<close> decides, and an error it passes to
  its callback ends the request with that error before anything is stored; an accepted
  file is written to \<open>destination/filename\<close>, unless it is longer than \<open>limits.fileSize\<close>
  (\<open>File too large\<close>, and multer removes what it had written). An error is handed to
  \<open>next\<close>, so that Express skips the route handler and runs the error-handling
  middleware of line 173.
\<close>

definition upload_single ::
  "env \<Rightarrow> multer_file option \<Rightarrow> state \<Rightarrow> state \<times> (js_error + staged_file option)" where
  "upload_single env part s =
     (case part of
        None \<Rightarrow> (s, Inr None)
      | Some file \<Rightarrow>
          if fieldname file \<noteq> ''pdf'' then (s, Inl (Error ''Unexpected field''))
          else
            (case fileFilter file of
               Inl e \<Rightarrow> (s, Inl e)
             | Inr accepted \<Rightarrow>
                 if \<not> accepted then (s, Inr None)
                 else if fileSize < length (content file) then (s, Inl (Error ''File too large''))
                 else
                   (let stored = req_file env file
                    in case writeFileSync (stage_fault env) (fs s) (path stored) (content file) of
                         Inl e \<Rightarrow> (s, Inl e)
                       | Inr files \<Rightarrow> (s\<lparr>fs := files\<rparr>, Inr (Some stored)))))"

subsection \<open>\<open>POST /api/convert\<close> (lines 61 to 148)\<close>

definition downloadDir :: string where
  "downloadDir = ''downloads''"

text \<open>The record of lines 105 to 112.\<close>

definition historyItem_completed :: "env \<Rightarrow> staged_file \<Rightarrow> string \<Rightarrow> jsobj" where
  "historyItem_completed env file wordFileName =
     [(''id'', JString (toString (date_now_completed env))),
      (''originalName'', JString (originalname file)),
      (''fileName'', JString wordFileName),
      (''status'', JString ''completed''),
      (''downloadUrl'', JString (''/downloads/'' @ wordFileName)),
      (''createdAt'', JDate (new_date_completed env))]"

text \<open>The record of lines 132 to 138.\<close>

definition historyItem_failed :: "env \<Rightarrow> staged_file option \<Rightarrow> js_error \<Rightarrow> jsobj" where
  "historyItem_failed env reqfile error =
     [(''id'', JString (toString (date_now_failed env))),
      (''originalName'', JString (or_default (map_option originalname reqfile) ''unknown'')),
      (''status'', JString ''failed''),
      (''error'', JString (message error)),
      (''createdAt'', JDate (new_date_failed env))]"

text \<open>The document of lines 80 to 95: one section, one paragraph, one run.\<close>

definition doc :: "string \<Rightarrow> docx_document" where
  "doc text = Document [Section [Paragraph
                [\<lparr>text_tr = text, size_tr = 24, font_tr = ''Arial''\<rparr>]]]"

text \<open>
  The \<open>try\<close> block, lines 63 to 126. It returns the world as it is when the block is
  left, and either the response it sent or the error it threw.
\<close>

definition try_block ::
  "env \<Rightarrow> staged_file option \<Rightarrow> state \<Rightarrow> state \<times> (js_error + response)" where
  "try_block env reqfile s =
     (case reqfile of
        None \<Rightarrow> (s, Inr (res_status_json 400 (Obj [(''error'', JString msg_no_file)])))
      | Some file \<Rightarrow>
          (let pdfPath = path file;
               fileName = replace ''.pdf'' [] (filename file)
           in case readFileSync (read_fault env) (fs s) pdfPath of
                Inl e \<Rightarrow> (s, Inl e)
              | Inr pdfBuffer \<Rightarrow>
          (case pdfParse env pdfBuffer of
                Inl e \<Rightarrow> (s, Inl e)
              | Inr pdfData \<Rightarrow>
          (let text = text_pd pdfData
           in case toBuffer env (doc text) of
                Inl e \<Rightarrow> (s, Inl e)
              | Inr buffer \<Rightarrow>
          (let wordFileName = fileName @ ''.docx'';
               wordPath = path_join downloadDir wordFileName
           in case writeFileSync (write_fault env) (fs s) wordPath buffer of
                Inl e \<Rightarrow> (s, Inl e)
              | Inr files1 \<Rightarrow>
          (let s1 = s\<lparr>fs := files1\<rparr>;
               historyItem = historyItem_completed env file wordFileName;
               s2 = s1\<lparr>conversionHistory := historyItem # conversionHistory s1\<rparr>
           in case unlinkSync (unlink_fault env) (fs s2) pdfPath of
                Inl e \<Rightarrow> (s2, Inl e)
              | Inr files2 \<Rightarrow>
                  (s2\<lparr>fs := files2\<rparr>,
                   Inr (res_json (Obj [(''success'', JBool True),
                                       (''message'', JString msg_converted),
                                       (''downloadUrl'', JString (''/downloads/'' @ wordFileName)),
                                       (''fileName'', JString wordFileName)])))))))))"

text \<open>The \<open>catch\<close> block, lines 128 to 147.\<close>

definition catch_block ::
  "env \<Rightarrow> staged_file option \<Rightarrow> js_error \<Rightarrow> state \<Rightarrow> state \<times> response" where
  "catch_block env reqfile error s =
     (let historyItem = historyItem_failed env reqfile error
      in (s\<lparr>conversionHistory := historyItem # conversionHistory s\<rparr>,
          res_status_json 500 (Obj [(''success'', JBool False),
                                    (''error'', JString msg_conversion_failed),
                                    (''message'', JString (message error))])))"

definition convert_handler :: "env \<Rightarrow> staged_file option \<Rightarrow> state \<Rightarrow> state \<times> response" where
  "convert_handler env reqfile s =
     (case try_block env reqfile s of
        (s', Inr res) \<Rightarrow> (s', res)
      | (s', Inl error) \<Rightarrow> catch_block env reqfile error s')"

text \<open>The error-handling middleware, lines 173 to 179.\<close>

definition error_middleware :: "js_error \<Rightarrow> response" where
  "error_middleware error =
     res_status_json 500 (Obj [(''error'', JString msg_internal_error),
                               (''message'', JString (message error))])"

text \<open>The route of line 61: the upload middleware, then the handler.\<close>

definition post_convert :: "env \<Rightarrow> multer_file option \<Rightarrow> state \<Rightarrow> state \<times> response" where
  "post_convert env part s =
     (case upload_single env part s of
        (s', Inl error) \<Rightarrow> (s', error_middleware error)
      | (s', Inr reqfile) \<Rightarrow> convert_handler env reqfile s')"

subsection \<open>\<open>GET /api/history\<close> (lines 151 to 153)\<close>

definition get_history :: "state \<Rightarrow> state \<times> response" where
  "get_history s = (s, res_json (Arr (slice 0 20 (conversionHistory s))))"

subsection \<open>A process lifetime: requests handled in sequence from the initial state\<close>

datatype request = PostConvert env "multer_file option" | GetHistory

fun handle :: "request \<Rightarrow> state \<Rightarrow> state \<times> response" where
  "handle (PostConvert env part) s = post_convert env part s"
| "handle GetHistory s = get_history s"

fun run :: "request list \<Rightarrow> state \<Rightarrow> state" where
  "run [] s = s"
| "run (r # rs) s = run rs (fst (handle r s))"

subsection \<open>Properties of the specification, as predicates on the model\<close>

text \<open>
  The data model of the specification: a ConversionRecord has status \<open>completed\<close> or
  \<open>failed\<close>; \<open>fileName\<close> and \<open>downloadUrl\<close> are present iff it is completed, \<open>error\<close>
  is present iff it is failed.
\<close>

definition record_wellformed :: "jsobj \<Rightarrow> bool" where
  "record_wellformed r =
     ((field ''status'' r = Some (JString ''completed'') \<or>
       field ''status'' r = Some (JString ''failed'')) \<and>
      ((field ''fileName'' r \<noteq> None) = (field ''status'' r = Some (JString ''completed''))) \<and>
      ((field ''downloadUrl'' r \<noteq> None) = (field ''status'' r = Some (JString ''completed''))) \<and>
      ((field ''error'' r \<noteq> None) = (field ''status'' r = Some (JString ''failed''))))"

text \<open>
  A request that is a conversion attempt: a \<open>POST /api/convert\<close> whose upload is stored,
  so that the route handler runs on it.
\<close>

fun is_conversion :: "request \<Rightarrow> bool" where
  "is_conversion (PostConvert env (Some file)) =
     (fieldname file = ''pdf'' \<and> mimetype file = ''application/pdf'' \<and>
      length (content file) \<le> fileSize \<and> stage_fault env = None)"
| "is_conversion (PostConvert env None) = False"
| "is_conversion GetHistory = False"

subsection \<open>Concrete requests\<close>

text \<open>An environment in which every step succeeds, and two uploads.\<close>

definition env_ok :: env where
  "env_ok =
     \<lparr>date_now_upload = 1700000000000, math_random = 123456789, stage_fault = None,
      read_fault = None, pdfParse = (\<lambda>b. Inr \<lparr>text_pd = ''Hello World''\<rparr>),
      toBuffer = (\<lambda>d. Inr [80, 75, 3, 4]), write_fault = None,
      date_now_completed = 1700000000040, new_date_completed = 1700000000040,
      unlink_fault = None, date_now_failed = 1700000000041, new_date_failed = 1700000000041\<rparr>"

definition upload_report :: multer_file where
  "upload_report =
     \<lparr>fieldname = ''pdf'', originalname = ''report.pdf'', mimetype = ''application/pdf'',
      content = [37, 80, 68, 70]\<rparr>"

definition upload_notes :: multer_file where
  "upload_notes =
     \<lparr>fieldname = ''pdf'', originalname = ''notes.txt'', mimetype = ''text/plain'',
      content = [104, 105]\<rparr>"

text \<open>
  The same environment with one step failing: the unlink of the staged file, the
  generation of the document, the extraction of the text.
\<close>

definition env_unlink_fails :: env where
  "env_unlink_fails = env_ok\<lparr>unlink_fault := Some (Error ''EPERM: operation not permitted, unlink'')\<rparr>"

definition env_generate_fails :: env where
  "env_generate_fails = env_ok\<lparr>toBuffer := (\<lambda>d. Inl (Error ''out of memory''))\<rparr>"

definition env_parse_fails :: env where
  "env_parse_fails = env_ok\<lparr>pdfParse := (\<lambda>b. Inl (Error ''Invalid PDF structure''))\<rparr>"

text \<open>
  A second upload of a broken PDF, stored under another name, whose failure is
  recorded in the same millisecond as that of \<open>env_parse_fails\<close>.
\<close>

definition env_parse_fails_again :: env where
  "env_parse_fails_again = env_parse_fails\<lparr>date_now_upload := 1700000000020, math_random := 987654321\<rparr>"

definition upload_scan :: multer_file where
  "upload_scan =
     \<lparr>fieldname = ''pdf'', originalname = ''scan.pdf'', mimetype = ''application/pdf'',
      content = [37, 80, 68]\<rparr>"

section \<open>Properties\<close>

subsection \<open>The name of the staged file and of the generated document\<close>

lemma digit_char_digit: "d < 10 \<Longrightarrow> digit_char d \<in> set ''0123456789''"
  unfolding digit_char_def by (rule nth_mem) simp

lemma toString_digits: "set (toString n) \<subseteq> set ''0123456789''"
proof (induction n rule: toString.induct)
  case (1 n)
  show ?case
  proof (cases "n < 10")
    case True
    then show ?thesis
      using digit_char_digit [of n] by (subst toString.simps) simp
  next
    case False
    have "n mod 10 < 10" by simp
    then have "digit_char (n mod 10) \<in> set ''0123456789''"
      by (rule digit_char_digit)
    with False "1.IH" show ?thesis
      by (subst toString.simps) simp
  qed
qed

lemma toString_no_dot: "CHR ''.'' \<notin> set (toString n)"
  using toString_digits [of n] by auto

text \<open>
  \<open>replace\<close> removes the first \<open>.pdf\<close>; when the name has no dot before its extension,
  that is the extension.
\<close>

lemma replace_pdf_suffix:
  "CHR ''.'' \<notin> set b \<Longrightarrow> replace ''.pdf'' [] (b @ ''.pdf'') = b"
  by (induction b) auto

lemma storage_filename_pdf:
  "fieldname file = ''pdf'' \<Longrightarrow>
   storage_filename env file
     = (''pdf-'' @ toString (date_now_upload env) @ ''-'' @ toString (math_random env)) @ ''.pdf''"
  by (simp add: storage_filename_def)

lemma replace_storage_filename:
  assumes "fieldname file = ''pdf''"
  shows "replace ''.pdf'' [] (storage_filename env file)
     = ''pdf-'' @ toString (date_now_upload env) @ ''-'' @ toString (math_random env)"
proof -
  have "CHR ''.'' \<notin> set (''pdf-'' @ toString (date_now_upload env) @ ''-'' @ toString (math_random env))"
    using toString_no_dot by simp
  then show ?thesis
    unfolding storage_filename_pdf [OF assms] by (rule replace_pdf_suffix)
qed

lemma req_file_simps:
  "filename (req_file env file) = storage_filename env file"
  "path (req_file env file) = ''uploads/'' @ storage_filename env file"
  "originalname (req_file env file) = originalname file"
  "content (req_file env file) = content file"
  by (simp_all add: req_file_def path_join_def storage_destination_def Let_def)

subsection \<open>The upload\<close>

lemma upload_single_accepted:
  assumes "fieldname file = ''pdf''" "mimetype file = ''application/pdf''"
    "length (content file) \<le> fileSize" "stage_fault env = None"
  shows "upload_single env (Some file) s
    = (s\<lparr>fs := (fs s)(path (req_file env file) \<mapsto> content file)\<rparr>, Inr (Some (req_file env file)))"
  using assms by (simp add: upload_single_def fileFilter_def writeFileSync_def Let_def)

lemma upload_single_history:
  "conversionHistory (fst (upload_single env part s)) = conversionHistory s"
  by (simp add: upload_single_def fileFilter_def writeFileSync_def Let_def
      split: option.splits sum.splits)

lemma upload_single_rejected:
  "upload_single env part s = (s', Inl e) \<Longrightarrow> s' = s"
  by (auto simp: upload_single_def fileFilter_def writeFileSync_def Let_def
      split: option.splits sum.splits if_splits)

subsection \<open>The success path\<close>

text \<open>
  When the upload is stored and all five steps of the handler succeed, the request
  ends in this world and with this response.
\<close>

lemma post_convert_ok:
  assumes "fieldname file = ''pdf''" "mimetype file = ''application/pdf''"
    "length (content file) \<le> fileSize" "stage_fault env = None"
    "read_fault env = None"
    "pdfParse env (content file) = Inr pdfData"
    "toBuffer env (doc (text_pd pdfData)) = Inr buffer"
    "write_fault env = None"
    "unlink_fault env = None"
  defines "base \<equiv> ''pdf-'' @ toString (date_now_upload env) @ ''-'' @ toString (math_random env)"
  shows "post_convert env (Some file) s
      = (s\<lparr>fs := ((fs s)(path (req_file env file) \<mapsto> content file,
                        ''downloads/'' @ base @ ''.docx'' \<mapsto> buffer))
                      (path (req_file env file) := None),
            conversionHistory :=
              historyItem_completed env (req_file env file) (base @ ''.docx'') # conversionHistory s\<rparr>,
         \<lparr>status_code = 200,
          body = Obj [(''success'', JBool True), (''message'', JString msg_converted),
                      (''downloadUrl'', JString (''/downloads/'' @ base @ ''.docx'')),
                      (''fileName'', JString (base @ ''.docx''))]\<rparr>)"
proof -
  have repl: "replace ''.pdf'' [] (storage_filename env file) = base"
    unfolding base_def using assms(1) by (rule replace_storage_filename)
  have up: "upload_single env (Some file) s
      = (s\<lparr>fs := (fs s)(path (req_file env file) \<mapsto> content file)\<rparr>, Inr (Some (req_file env file)))"
    using assms(1-4) by (rule upload_single_accepted)
  show ?thesis
    using assms(5-9)
    by (simp add: post_convert_def up convert_handler_def try_block_def repl
        req_file_simps(1) readFileSync_def writeFileSync_def unlinkSync_def Let_def
        path_join_def downloadDir_def res_json_def)
qed

text \<open>
  C1 (amended). For every upload of field \<open>pdf\<close> that is staged, read, parsed, generated
  and written successfully and whose staged file is then unlinked successfully,
  \<open>POST /api/convert\<close> responds 200 with the JSON body \<open>success: true\<close>, a message,
  \<open>fileName\<close> and \<open>downloadUrl\<close>, where \<open>fileName\<close> is the staged file's name with its
  \<open>.pdf\<close> suffix replaced by \<open>.docx\<close> and \<open>downloadUrl\<close> is \<open>/downloads/<fileName>\<close>; the
  generated document is in the output area under that name afterwards.
\<close>

theorem convert_success:
  assumes "fieldname file = ''pdf''" "mimetype file = ''application/pdf''"
    "length (content file) \<le> fileSize" "stage_fault env = None"
    "read_fault env = None"
    "pdfParse env (content file) = Inr pdfData"
    "toBuffer env (doc (text_pd pdfData)) = Inr buffer"
    "write_fault env = None"
    "unlink_fault env = None"
  shows "(let base = ''pdf-'' @ toString (date_now_upload env) @ ''-'' @ toString (math_random env);
              wordFileName = base @ ''.docx''
          in filename (req_file env file) = base @ ''.pdf'' \<and>
             snd (post_convert env (Some file) s)
               = \<lparr>status_code = 200,
                  body = Obj [(''success'', JBool True), (''message'', JString msg_converted),
                              (''downloadUrl'', JString (''/downloads/'' @ wordFileName)),
                              (''fileName'', JString wordFileName)]\<rparr> \<and>
             fs (fst (post_convert env (Some file) s)) (''downloads/'' @ wordFileName) = Some buffer)"
proof -
  let ?base = "''pdf-'' @ toString (date_now_upload env) @ ''-'' @ toString (math_random env)"
  have name: "filename (req_file env file) = ?base @ ''.pdf''"
    using assms(1) by (simp add: req_file_simps storage_filename_pdf)
  note run = post_convert_ok [OF assms, of s]
  have out: "fs (fst (post_convert env (Some file) s)) (''downloads/'' @ ?base @ ''.docx'') = Some buffer"
    unfolding run by (simp add: req_file_simps(2))
  show ?thesis
    unfolding Let_def using name out by (simp add: run)
qed

theorem convert_success_witness:
  "fieldname upload_report = ''pdf'' \<and> mimetype upload_report = ''application/pdf'' \<and>
   length (content upload_report) \<le> fileSize \<and> stage_fault env_ok = None \<and>
   read_fault env_ok = None \<and>
   pdfParse env_ok (content upload_report) = Inr \<lparr>text_pd = ''Hello World''\<rparr> \<and>
   toBuffer env_ok (doc ''Hello World'') = Inr [80, 75, 3, 4] \<and>
   write_fault env_ok = None \<and> unlink_fault env_ok = None \<and>
   status_code (snd (post_convert env_ok (Some upload_report) initial_state)) = 200 \<and>
   fs (fst (post_convert env_ok (Some upload_report) initial_state))
     (''downloads/'' @ (''pdf-'' @ toString 1700000000000 @ ''-'' @ toString 123456789) @ ''.docx'')
     = Some [80, 75, 3, 4]"
  using convert_success [of upload_report env_ok "\<lparr>text_pd = ''Hello World''\<rparr>" "[80, 75, 3, 4]" initial_state]
  by (simp add: env_ok_def upload_report_def fileSize_def Let_def)

text \<open>
  The claim as stated fails when the unlink of line 117 throws: the upload is staged,
  parsed and generated, the document is in the output area, and the response is 500.
\<close>

theorem convert_success_counterexample:
  "fieldname upload_report = ''pdf'' \<and> mimetype upload_report = ''application/pdf'' \<and>
   fst (upload_single env_unlink_fails (Some upload_report) initial_state)
     = initial_state\<lparr>fs := [path (req_file env_unlink_fails upload_report) \<mapsto> content upload_report]\<rparr> \<and>
   pdfParse env_unlink_fails (content upload_report) = Inr \<lparr>text_pd = ''Hello World''\<rparr> \<and>
   toBuffer env_unlink_fails (doc ''Hello World'') = Inr [80, 75, 3, 4] \<and>
   fs (fst (post_convert env_unlink_fails (Some upload_report) initial_state))
     ''downloads/pdf-1700000000000-123456789.docx'' = Some [80, 75, 3, 4] \<and>
   status_code (snd (post_convert env_unlink_fails (Some upload_report) initial_state)) = 500 \<and>
   status_code (snd (post_convert env_unlink_fails (Some upload_report) initial_state)) \<noteq> 200"
  by (simp add: env_unlink_fails_def env_ok_def upload_report_def initial_state_def fileSize_def
       post_convert_def upload_single_def fileFilter_def convert_handler_def try_block_def
       catch_block_def readFileSync_def writeFileSync_def unlinkSync_def Let_def
       res_status_json_def req_file_def storage_filename_def toString.simps digit_char_def
       path_join_def downloadDir_def storage_destination_def)

subsection \<open>Requests that never reach the conversion\<close>

text \<open>
  C8. For every \<open>POST /api/convert\<close> request in which the multipart file field is
  missing, the response is status 400 with a JSON body that has an \<open>error\<close> field; no
  record is appended to the history and no file is created (the world is unchanged).
\<close>

theorem missing_file_400:
  "post_convert env None s = (s, \<lparr>status_code = 400, body = Obj [(''error'', JString msg_no_file)]\<rparr>) \<and>
   field ''error'' (members (body (snd (post_convert env None s)))) \<noteq> None \<and>
   conversionHistory (fst (post_convert env None s)) = conversionHistory s \<and>
   fs (fst (post_convert env None s)) = fs s"
  by (simp add: post_convert_def upload_single_def convert_handler_def try_block_def
      res_status_json_def field_def)

text \<open>
  C3 (amended). For every upload whose MIME type is not \<open>application/pdf\<close>, the request
  ends in the error-handling middleware: the response is status 500 with the JSON body
  \<open>{error, message}\<close>, where \<open>message\<close> is the message of the error raised by \<open>fileFilter\<close>
  (or by multer, when the field is not \<open>pdf\<close>); the world is unchanged, so no file is
  persisted to the staging area, no file appears in the output area and no record is
  appended.
\<close>

theorem non_pdf_rejected:
  assumes "mimetype file \<noteq> ''application/pdf''"
  shows "post_convert env (Some file) s
    = (s, \<lparr>status_code = 500,
           body = Obj [(''error'', JString msg_internal_error),
                       (''message'', JString (if fieldname file = ''pdf'' then msg_only_pdf
                                              else ''Unexpected field''))]\<rparr>)"
  using assms
  by (simp add: post_convert_def upload_single_def fileFilter_def error_middleware_def
      res_status_json_def)

theorem non_pdf_rejected_witness:
  "mimetype upload_notes \<noteq> ''application/pdf'' \<and>
   post_convert env_ok (Some upload_notes) initial_state
    = (initial_state, \<lparr>status_code = 500,
           body = Obj [(''error'', JString msg_internal_error),
                       (''message'', JString msg_only_pdf)]\<rparr>)"
  using non_pdf_rejected [of upload_notes env_ok initial_state]
  by (simp add: upload_notes_def)

text \<open>The status of that response is 500, which is not in the 400 class.\<close>

theorem non_pdf_rejected_counterexample:
  "mimetype upload_notes \<noteq> ''application/pdf'' \<and>
   status_code (snd (post_convert env_ok (Some upload_notes) initial_state)) = 500 \<and>
   \<not> (400 \<le> status_code (snd (post_convert env_ok (Some upload_notes) initial_state)) \<and>
      status_code (snd (post_convert env_ok (Some upload_notes) initial_state)) < 500)"
  by (simp add: upload_notes_def post_convert_def upload_single_def fileFilter_def
      error_middleware_def res_status_json_def)

subsection \<open>Reading the history\<close>

text \<open>A conversion attempt appends at least one record.\<close>

lemma post_convert_grows:
  assumes "fieldname file = ''pdf''" "mimetype file = ''application/pdf''"
    "length (content file) \<le> fileSize" "stage_fault env = None"
  shows "Suc (length (conversionHistory s)) \<le> length (conversionHistory (fst (post_convert env (Some file) s)))"
  by (simp add: post_convert_def upload_single_accepted [OF assms] convert_handler_def
      try_block_def catch_block_def Let_def split: sum.splits)

lemma run_grows:
  "list_all is_conversion rs \<Longrightarrow>
   length rs + length (conversionHistory s) \<le> length (conversionHistory (run rs s))"
proof (induction rs arbitrary: s)
  case Nil
  then show ?case by simp
next
  case (Cons r rs)
  from Cons.prems have r: "is_conversion r" and rs: "list_all is_conversion rs"
    by simp_all
  from r obtain env upl where req: "r = PostConvert env (Some upl)"
    by (cases r rule: is_conversion.cases) simp_all
  from r have "Suc (length (conversionHistory s)) \<le> length (conversionHistory (fst (handle r s)))"
    unfolding req by (simp add: post_convert_grows)
  moreover have "length rs + length (conversionHistory (fst (handle r s)))
      \<le> length (conversionHistory (run rs (fst (handle r s))))"
    using rs by (rule Cons.IH)
  ultimately show ?case by simp
qed

text \<open>
  C6. For every history state, \<open>GET /api/history\<close> returns the first
  \<open>min(20, length)\<close> entries of the history and leaves the world as it is; in
  particular, after 25 conversion attempts handled from the initial state it returns
  exactly 20 entries, the first (most recent) 20 of the history.
\<close>

theorem history_first_20:
  "fst (get_history s) = s \<and>
   snd (get_history s) = \<lparr>status_code = 200, body = Arr (take 20 (conversionHistory s))\<rparr> \<and>
   length (take 20 (conversionHistory s)) = min 20 (length (conversionHistory s)) \<and>
   (list_all is_conversion rs \<and> length rs = 25 \<longrightarrow>
      elements (body (snd (get_history (run rs initial_state))))
        = take 20 (conversionHistory (run rs initial_state)) \<and>
      length (elements (body (snd (get_history (run rs initial_state))))) = 20)"
proof -
  have "length (take 20 (conversionHistory (run rs initial_state))) = 20"
    if "list_all is_conversion rs" "length rs = 25"
    using run_grows [OF that(1), of initial_state] that(2) by simp
  then show ?thesis
    by (simp add: get_history_def slice_def res_json_def)
qed

theorem history_first_20_witness:
  "list_all is_conversion (replicate 25 (PostConvert env_ok (Some upload_report))) \<and>
   length (replicate 25 (PostConvert env_ok (Some upload_report))) = 25 \<and>
   length (elements (body (snd (get_history
      (run (replicate 25 (PostConvert env_ok (Some upload_report))) initial_state))))) = 20"
proof -
  have "is_conversion (PostConvert env_ok (Some upload_report))"
    by (simp add: env_ok_def upload_report_def fileSize_def)
  then have every: "list_all is_conversion (replicate 25 (PostConvert env_ok (Some upload_report)))"
    by (simp add: list_all_iff)
  have len: "length (replicate 25 (PostConvert env_ok (Some upload_report))) = 25"
    by simp
  from every len
    history_first_20 [of initial_state "replicate 25 (PostConvert env_ok (Some upload_report))"]
  have "length (elements (body (snd (get_history
      (run (replicate 25 (PostConvert env_ok (Some upload_report))) initial_state))))) = 20"
    by blast
  with every len show ?thesis by blast
qed

subsection \<open>The records of the history\<close>

text \<open>The definitions that a concrete request is evaluated with.\<close>

lemmas eval_defs =
  post_convert_def upload_single_def fileFilter_def convert_handler_def try_block_def
  catch_block_def readFileSync_def writeFileSync_def unlinkSync_def Let_def
  res_status_json_def res_json_def req_file_def initial_state_def fileSize_def
  error_middleware_def

lemma completed_wellformed: "record_wellformed (historyItem_completed env f w)"
  by (simp add: record_wellformed_def field_def historyItem_completed_def)

lemma failed_wellformed: "record_wellformed (historyItem_failed env rf e)"
  by (simp add: record_wellformed_def field_def historyItem_failed_def)

lemma try_block_history:
  "try_block env rf s = (s1, r) \<Longrightarrow>
   conversionHistory s1 = conversionHistory s \<or>
   (\<exists>f. rf = Some f \<and>
        conversionHistory s1
          = historyItem_completed env f (replace ''.pdf'' [] (filename f) @ ''.docx'')
              # conversionHistory s)"
  by (auto simp: try_block_def Let_def split: option.splits sum.splits)

lemma convert_handler_history:
  "\<exists>new. conversionHistory (fst (convert_handler env rf s)) = new @ conversionHistory s \<and>
         list_all record_wellformed new"
proof (cases "try_block env rf s")
  case (Pair s1 r)
  from try_block_history [OF Pair]
  obtain pre where pre: "conversionHistory s1 = pre @ conversionHistory s" "list_all record_wellformed pre"
    using completed_wellformed by fastforce
  show ?thesis
  proof (cases r)
    case (Inl e)
    with Pair pre have "conversionHistory (fst (convert_handler env rf s))
        = (historyItem_failed env rf e # pre) @ conversionHistory s"
      by (simp add: convert_handler_def catch_block_def)
    moreover have "list_all record_wellformed (historyItem_failed env rf e # pre)"
      using pre(2) failed_wellformed by simp
    ultimately show ?thesis by blast
  next
    case (Inr res)
    with Pair pre show ?thesis
      by (auto simp: convert_handler_def)
  qed
qed

lemma post_convert_history:
  "\<exists>new. conversionHistory (fst (post_convert env part s)) = new @ conversionHistory s \<and>
         list_all record_wellformed new"
proof (cases "upload_single env part s")
  case (Pair s1 r)
  have same: "conversionHistory s1 = conversionHistory s"
    using upload_single_history [of env part s] Pair by simp
  show ?thesis
  proof (cases r)
    case (Inl e)
    with Pair same show ?thesis
      by (simp add: post_convert_def)
  next
    case (Inr rf)
    with Pair same convert_handler_history [of env rf s1] show ?thesis
      by (simp add: post_convert_def)
  qed
qed

lemma run_wellformed:
  "list_all record_wellformed (conversionHistory s) \<Longrightarrow>
   list_all record_wellformed (conversionHistory (run rs s))"
proof (induction rs arbitrary: s)
  case Nil
  then show ?case by simp
next
  case (Cons r rs)
  have "list_all record_wellformed (conversionHistory (fst (handle r s)))"
  proof (cases r)
    case (PostConvert env part)
    with post_convert_history [of env part s] Cons.prems show ?thesis
      by auto
  next
    case GetHistory
    with Cons.prems show ?thesis
      by (simp add: get_history_def)
  qed
  then show ?case
    by (simp add: Cons.IH)
qed

text \<open>
  C7. Every ConversionRecord in the history of a process (any sequence of requests
  handled from the initial state) has status \<open>completed\<close> or \<open>failed\<close>; its \<open>fileName\<close>
  and \<open>downloadUrl\<close> fields are present iff the status is \<open>completed\<close>, and its \<open>error\<close>
  field is present iff the status is \<open>failed\<close>.
\<close>

theorem records_wellformed:
  "list_all record_wellformed (conversionHistory (run rs initial_state))"
  by (rule run_wellformed) (simp add: initial_state_def)

theorem records_wellformed_witness:
  "list_all record_wellformed
     (conversionHistory (run [PostConvert env_unlink_fails (Some upload_report)] initial_state)) \<and>
   length (conversionHistory (run [PostConvert env_unlink_fails (Some upload_report)] initial_state)) = 2"
  using records_wellformed [of "[PostConvert env_unlink_fails (Some upload_report)]"]
  by (simp add: env_unlink_fails_def env_ok_def upload_report_def eval_defs)

text \<open>
  C9 (fails on the code). The \<open>id\<close> of a record is \<open>Date.now().toString()\<close> alone: two
  uploads of broken PDFs whose failures are recorded in the same millisecond yield two
  distinct records with the same \<open>id\<close>.
\<close>

theorem id_collision:
  "(let h = conversionHistory
              (run [PostConvert env_parse_fails (Some upload_report),
                    PostConvert env_parse_fails_again (Some upload_scan)] initial_state)
    in length h = 2 \<and> h ! 0 \<noteq> h ! 1 \<and> field ''id'' (h ! 0) = field ''id'' (h ! 1))"
  by (simp add: env_parse_fails_again_def env_parse_fails_def env_ok_def upload_report_def
      upload_scan_def eval_defs historyItem_failed_def or_default_def field_def)

subsection \<open>The failure path\<close>

text \<open>
  The \<open>catch\<close> block on its own: whatever the \<open>try\<close> block threw, the handler puts a
  \<open>failed\<close> record in front of the history and answers 500. The record takes its
  \<open>originalName\<close> from \<open>req.file\<close>, and is \<open>unknown\<close> when there is none or it is empty.
\<close>

lemma convert_handler_catches:
  assumes "try_block env reqfile s = (s1, Inl e)"
  shows "convert_handler env reqfile s
      = (s1\<lparr>conversionHistory := historyItem_failed env reqfile e # conversionHistory s1\<rparr>,
         \<lparr>status_code = 500,
          body = Obj [(''success'', JBool False), (''error'', JString msg_conversion_failed),
                      (''message'', JString (message e))]\<rparr>)"
  using assms by (simp add: convert_handler_def catch_block_def res_status_json_def)

lemma historyItem_failed_fields:
  "field ''status'' (historyItem_failed env reqfile e) = Some (JString ''failed'')"
  "field ''originalName'' (historyItem_failed env reqfile e)
     = Some (JString (case reqfile of
                        None \<Rightarrow> ''unknown''
                      | Some f \<Rightarrow> if originalname f = [] then ''unknown'' else originalname f))"
  "field ''error'' (historyItem_failed env reqfile e) = Some (JString (message e))"
  by (simp_all add: field_def historyItem_failed_def or_default_def split: option.splits)

text \<open>
  C4. For every conversion attempt (an upload that is stored) in which a step after
  staging throws an error \<open>e\<close>, be it the read of the staged file, the text
  extraction, the document generation, the output write or the unlink, the handler
  catches it: a record with status \<open>failed\<close> is put in front of the history, carrying the
  client-supplied original name (\<open>unknown\<close> when that name is empty) and the message of
  \<open>e\<close>, and the response is status 500 with the JSON body
  \<open>{success: false, error, message}\<close> where \<open>message\<close> is the message of \<open>e\<close>. Behind the
  failed record the history is the old one, preceded by the \<open>completed\<close> record exactly
  when the output had been written before the throw. The request is answered in every
  case.
\<close>

theorem failure_recorded:
  assumes "fieldname file = ''pdf''" "mimetype file = ''application/pdf''"
    "length (content file) \<le> fileSize" "stage_fault env = None"
    and "read_fault env = Some e \<or>
         (read_fault env = None \<and> pdfParse env (content file) = Inl e) \<or>
         (read_fault env = None \<and>
          (\<exists>pdfData. pdfParse env (content file) = Inr pdfData \<and>
                     toBuffer env (doc (text_pd pdfData)) = Inl e)) \<or>
         (read_fault env = None \<and>
          (\<exists>pdfData buffer. pdfParse env (content file) = Inr pdfData \<and>
                            toBuffer env (doc (text_pd pdfData)) = Inr buffer) \<and>
          write_fault env = Some e) \<or>
         (read_fault env = None \<and>
          (\<exists>pdfData buffer. pdfParse env (content file) = Inr pdfData \<and>
                            toBuffer env (doc (text_pd pdfData)) = Inr buffer) \<and>
          write_fault env = None \<and> unlink_fault env = Some e)"
  shows "(let stored = req_file env file;
              failed = historyItem_failed env (Some stored) e;
              completed = historyItem_completed env stored
                 (''pdf-'' @ toString (date_now_upload env) @ ''-''
                    @ toString (math_random env) @ ''.docx'');
              written = (read_fault env = None \<and>
                 (\<exists>pdfData buffer. pdfParse env (content file) = Inr pdfData \<and>
                                   toBuffer env (doc (text_pd pdfData)) = Inr buffer) \<and>
                 write_fault env = None)
          in conversionHistory (fst (post_convert env (Some file) s))
               = failed # (if written then [completed] else []) @ conversionHistory s \<and>
             field ''status'' failed = Some (JString ''failed'') \<and>
             field ''originalName'' failed
               = Some (JString (if originalname file = [] then ''unknown'' else originalname file)) \<and>
             field ''error'' failed = Some (JString (message e)) \<and>
             snd (post_convert env (Some file) s)
               = \<lparr>status_code = 500,
                  body = Obj [(''success'', JBool False), (''error'', JString msg_conversion_failed),
                              (''message'', JString (message e))]\<rparr>)"
proof -
  have repl: "replace ''.pdf'' [] (storage_filename env file)
      = ''pdf-'' @ toString (date_now_upload env) @ ''-'' @ toString (math_random env)"
    using assms(1) by (rule replace_storage_filename)
  have up: "upload_single env (Some file) s
      = (s\<lparr>fs := (fs s)(path (req_file env file) \<mapsto> content file)\<rparr>, Inr (Some (req_file env file)))"
    using assms(1-4) by (rule upload_single_accepted)
  have differ: "path (req_file env file) \<noteq> path_join downloadDir w" for w
    by (simp add: path_join_def downloadDir_def req_file_simps(2))
  have fields: "field ''status'' (historyItem_failed env (Some (req_file env file)) e) = Some (JString ''failed'')"
    "field ''originalName'' (historyItem_failed env (Some (req_file env file)) e)
       = Some (JString (if originalname file = [] then ''unknown'' else originalname file))"
    "field ''error'' (historyItem_failed env (Some (req_file env file)) e) = Some (JString (message e))"
    by (simp_all add: historyItem_failed_fields req_file_simps(3))
  have run: "conversionHistory (fst (post_convert env (Some file) s))
       = historyItem_failed env (Some (req_file env file)) e
         # (if read_fault env = None \<and>
                 (\<exists>pdfData buffer. pdfParse env (content file) = Inr pdfData \<and>
                                   toBuffer env (doc (text_pd pdfData)) = Inr buffer) \<and>
                 write_fault env = None
            then [historyItem_completed env (req_file env file)
                 (''pdf-'' @ toString (date_now_upload env) @ ''-''
                    @ toString (math_random env) @ ''.docx'')] else []) @ conversionHistory s \<and>
     snd (post_convert env (Some file) s)
               = \<lparr>status_code = 500,
                  body = Obj [(''success'', JBool False), (''error'', JString msg_conversion_failed),
                              (''message'', JString (message e))]\<rparr>"
    using assms(5)
    by (elim disjE conjE exE)
      (simp_all add: post_convert_def up convert_handler_def try_block_def catch_block_def
        readFileSync_def writeFileSync_def unlinkSync_def Let_def differ repl req_file_simps(1)
        res_status_json_def)
  show ?thesis
    unfolding Let_def using run fields by simp
qed

theorem failure_recorded_witness:
  "fieldname upload_report = ''pdf'' \<and> mimetype upload_report = ''application/pdf'' \<and>
   length (content upload_report) \<le> fileSize \<and>
   stage_fault env_parse_fails = None \<and> read_fault env_parse_fails = None \<and>
   pdfParse env_parse_fails (content upload_report) = Inl (Error ''Invalid PDF structure'') \<and>
   stage_fault env_generate_fails = None \<and> read_fault env_generate_fails = None \<and>
   pdfParse env_generate_fails (content upload_report) = Inr \<lparr>text_pd = ''Hello World''\<rparr> \<and>
   toBuffer env_generate_fails (doc ''Hello World'') = Inl (Error ''out of memory'') \<and>
   conversionHistory (fst (post_convert env_parse_fails (Some upload_report) initial_state))
     = [historyItem_failed env_parse_fails (Some (req_file env_parse_fails upload_report))
          (Error ''Invalid PDF structure'')] \<and>
   snd (post_convert env_parse_fails (Some upload_report) initial_state)
     = \<lparr>status_code = 500,
        body = Obj [(''success'', JBool False), (''error'', JString msg_conversion_failed),
                    (''message'', JString ''Invalid PDF structure'')]\<rparr> \<and>
   conversionHistory (fst (post_convert env_generate_fails (Some upload_report) initial_state))
     = [historyItem_failed env_generate_fails (Some (req_file env_generate_fails upload_report))
          (Error ''out of memory'')] \<and>
   snd (post_convert env_generate_fails (Some upload_report) initial_state)
     = \<lparr>status_code = 500,
        body = Obj [(''success'', JBool False), (''error'', JString msg_conversion_failed),
                    (''message'', JString ''out of memory'')]\<rparr>"
  using failure_recorded [of upload_report env_parse_fails "Error ''Invalid PDF structure''" initial_state]
    failure_recorded [of upload_report env_generate_fails "Error ''out of memory''" initial_state]
  by (simp add: env_parse_fails_def env_generate_fails_def env_ok_def upload_report_def
      fileSize_def initial_state_def Let_def)

text \<open>
  C10. On the success path the \<open>completed\<close> record is appended before the staged input
  file is unlinked. So when the output file is written and the unlink then throws,
  the history ends with both a \<open>completed\<close> and, in front of it, a \<open>failed\<close> record for
  that one attempt, and the client receives the 500 response although the output
  file exists in the output area (and the staged file is still there).
\<close>

theorem unlink_failure_two_records:
  assumes "fieldname file = ''pdf''" "mimetype file = ''application/pdf''"
    "length (content file) \<le> fileSize" "stage_fault env = None"
    "read_fault env = None"
    "pdfParse env (content file) = Inr pdfData"
    "toBuffer env (doc (text_pd pdfData)) = Inr buffer"
    "write_fault env = None"
    "unlink_fault env = Some e"
  shows "(let stored = req_file env file;
              wordFileName = ''pdf-'' @ toString (date_now_upload env) @ ''-''
                               @ toString (math_random env) @ ''.docx'';
              completed = historyItem_completed env stored wordFileName;
              failed = historyItem_failed env (Some stored) e;
              s' = fst (post_convert env (Some file) s)
          in conversionHistory s' = failed # completed # conversionHistory s \<and>
             field ''status'' completed = Some (JString ''completed'') \<and>
             field ''status'' failed = Some (JString ''failed'') \<and>
             snd (post_convert env (Some file) s)
               = \<lparr>status_code = 500,
                  body = Obj [(''success'', JBool False), (''error'', JString msg_conversion_failed),
                              (''message'', JString (message e))]\<rparr> \<and>
             fs s' (''downloads/'' @ wordFileName) = Some buffer \<and>
             fs s' (path stored) = Some (content file))"
proof -
  let ?base = "''pdf-'' @ toString (date_now_upload env) @ ''-'' @ toString (math_random env)"
  have repl: "replace ''.pdf'' [] (storage_filename env file) = ?base"
    using assms(1) by (rule replace_storage_filename)
  have up: "upload_single env (Some file) s
      = (s\<lparr>fs := (fs s)(path (req_file env file) \<mapsto> content file)\<rparr>, Inr (Some (req_file env file)))"
    using assms(1-4) by (rule upload_single_accepted)
  have run: "post_convert env (Some file) s
      = (s\<lparr>fs := (fs s)(path (req_file env file) \<mapsto> content file,
                        ''downloads/'' @ ?base @ ''.docx'' \<mapsto> buffer),
            conversionHistory :=
              historyItem_failed env (Some (req_file env file)) e
                # historyItem_completed env (req_file env file) (?base @ ''.docx'')
                # conversionHistory s\<rparr>,
         \<lparr>status_code = 500,
          body = Obj [(''success'', JBool False), (''error'', JString msg_conversion_failed),
                      (''message'', JString (message e))]\<rparr>)"
    using assms(5-9)
    by (simp add: post_convert_def up convert_handler_def try_block_def catch_block_def repl
        req_file_simps(1) readFileSync_def writeFileSync_def unlinkSync_def Let_def
        path_join_def downloadDir_def res_status_json_def)
  show ?thesis
    unfolding Let_def run
    by (simp add: req_file_simps(2) field_def historyItem_completed_def historyItem_failed_def)
qed

theorem unlink_failure_two_records_witness:
  "fieldname upload_report = ''pdf'' \<and> mimetype upload_report = ''application/pdf'' \<and>
   length (content upload_report) \<le> fileSize \<and> stage_fault env_unlink_fails = None \<and>
   read_fault env_unlink_fails = None \<and>
   pdfParse env_unlink_fails (content upload_report) = Inr \<lparr>text_pd = ''Hello World''\<rparr> \<and>
   toBuffer env_unlink_fails (doc ''Hello World'') = Inr [80, 75, 3, 4] \<and>
   write_fault env_unlink_fails = None \<and>
   unlink_fault env_unlink_fails = Some (Error ''EPERM: operation not permitted, unlink'') \<and>
   length (conversionHistory (fst (post_convert env_unlink_fails (Some upload_report) initial_state))) = 2 \<and>
   status_code (snd (post_convert env_unlink_fails (Some upload_report) initial_state)) = 500"
  using unlink_failure_two_records [of upload_report env_unlink_fails
      "\<lparr>text_pd = ''Hello World''\<rparr>" "[80, 75, 3, 4]"
      "Error ''EPERM: operation not permitted, unlink''" initial_state]
  by (simp add: env_unlink_fails_def env_ok_def upload_report_def fileSize_def Let_def
      initial_state_def)

subsection \<open>The staged input file\<close>

text \<open>
  What becomes of the staged file of a conversion attempt: it is gone when all five
  steps of the handler succeed, and it is still in the staging area when one of them
  fails.
\<close>

lemma staged_file_fate:
  assumes "fieldname file = ''pdf''" "mimetype file = ''application/pdf''"
    "length (content file) \<le> fileSize" "stage_fault env = None"
  shows "fs (fst (post_convert env (Some file) s)) (path (req_file env file))
    = (if read_fault env = None \<and>
          (\<exists>pdfData buffer. pdfParse env (content file) = Inr pdfData \<and>
                            toBuffer env (doc (text_pd pdfData)) = Inr buffer) \<and>
          write_fault env = None \<and> unlink_fault env = None
       then None else Some (content file))"
proof -
  have up: "upload_single env (Some file) s
      = (s\<lparr>fs := (fs s)(path (req_file env file) \<mapsto> content file)\<rparr>, Inr (Some (req_file env file)))"
    using assms by (rule upload_single_accepted)
  have differ: "path_join downloadDir w \<noteq> path (req_file env file)"
    "path (req_file env file) \<noteq> path_join downloadDir w" for w
    by (simp_all add: path_join_def downloadDir_def req_file_simps(2))
  show ?thesis
    by (auto simp: post_convert_def up convert_handler_def try_block_def catch_block_def
        readFileSync_def writeFileSync_def unlinkSync_def Let_def differ
        split: sum.splits option.splits)
qed

text \<open>
  C2 (amended). For every conversion attempt, the staged input file is deleted once
  reading, text extraction, document generation and the output write have all
  succeeded and the unlink itself does not fail.
\<close>

theorem staged_file_deleted:
  assumes "fieldname file = ''pdf''" "mimetype file = ''application/pdf''"
    "length (content file) \<le> fileSize" "stage_fault env = None"
    "read_fault env = None"
    "pdfParse env (content file) = Inr pdfData"
    "toBuffer env (doc (text_pd pdfData)) = Inr buffer"
    "write_fault env = None"
    "unlink_fault env = None"
  shows "fs (fst (upload_single env (Some file) s)) (path (req_file env file)) = Some (content file) \<and>
         fs (fst (post_convert env (Some file) s)) (path (req_file env file)) = None"
proof -
  have "fs (fst (upload_single env (Some file) s)) (path (req_file env file)) = Some (content file)"
    by (simp add: upload_single_accepted [OF assms(1-4)])
  moreover have "fs (fst (post_convert env (Some file) s)) (path (req_file env file)) = None"
    unfolding staged_file_fate [OF assms(1-4)] using assms(5-9) by simp
  ultimately show ?thesis ..
qed

theorem staged_file_deleted_witness:
  "fieldname upload_report = ''pdf'' \<and> mimetype upload_report = ''application/pdf'' \<and>
   length (content upload_report) \<le> fileSize \<and> stage_fault env_ok = None \<and>
   read_fault env_ok = None \<and>
   pdfParse env_ok (content upload_report) = Inr \<lparr>text_pd = ''Hello World''\<rparr> \<and>
   toBuffer env_ok (doc ''Hello World'') = Inr [80, 75, 3, 4] \<and>
   write_fault env_ok = None \<and> unlink_fault env_ok = None \<and>
   fs (fst (upload_single env_ok (Some upload_report) initial_state))
      (path (req_file env_ok upload_report)) = Some [37, 80, 68, 70] \<and>
   fs (fst (post_convert env_ok (Some upload_report) initial_state))
      (path (req_file env_ok upload_report)) = None"
  using staged_file_deleted [of upload_report env_ok "\<lparr>text_pd = ''Hello World''\<rparr>"
      "[80, 75, 3, 4]" initial_state]
  by (simp add: env_ok_def upload_report_def fileSize_def)

text \<open>
  The claim as stated fails when document generation throws after the text has been
  extracted: the staged file is still in the staging area after the request.
\<close>

theorem staged_file_deleted_counterexample:
  "pdfParse env_generate_fails (content upload_report) = Inr \<lparr>text_pd = ''Hello World''\<rparr> \<and>
   toBuffer env_generate_fails (doc ''Hello World'') = Inl (Error ''out of memory'') \<and>
   fs (fst (upload_single env_generate_fails (Some upload_report) initial_state))
      (path (req_file env_generate_fails upload_report)) = Some (content upload_report) \<and>
   fs (fst (post_convert env_generate_fails (Some upload_report) initial_state))
      (path (req_file env_generate_fails upload_report)) = Some (content upload_report)"
  by (simp add: env_generate_fails_def env_ok_def upload_report_def eval_defs)

subsection \<open>The order of the history\<close>

lemma post_convert_200:
  assumes "status_code (snd (post_convert env (Some file) s)) = 200"
  shows "conversionHistory (fst (post_convert env (Some file) s))
    = historyItem_completed env (req_file env file)
        (''pdf-'' @ toString (date_now_upload env) @ ''-'' @ toString (math_random env) @ ''.docx'')
      # conversionHistory s"
proof -
  have pdf: "fieldname file = ''pdf''"
    using assms
    by (auto simp: post_convert_def upload_single_def error_middleware_def res_status_json_def
        split: if_splits)
  have repl: "replace ''.pdf'' [] (storage_filename env file)
      = ''pdf-'' @ toString (date_now_upload env) @ ''-'' @ toString (math_random env)"
    using pdf by (rule replace_storage_filename)
  show ?thesis
    using assms pdf
    by (auto simp: post_convert_def upload_single_def fileFilter_def error_middleware_def
        convert_handler_def try_block_def catch_block_def res_status_json_def res_json_def
        Let_def req_file_simps(1) repl
        split: if_splits sum.splits option.splits)
qed

text \<open>
  C5. Every handled conversion puts its records in front of the history, so after
  three successful conversions A, B, C handled in this order the history starts with
  the records of C, B, A, and \<open>GET /api/history\<close> returns them in this order, most
  recent first.
\<close>

theorem history_most_recent_first:
  assumes "post_convert envA (Some fileA) s0 = (s1, resA)" "status_code resA = 200"
    and "post_convert envB (Some fileB) s1 = (s2, resB)" "status_code resB = 200"
    and "post_convert envC (Some fileC) s2 = (s3, resC)" "status_code resC = 200"
  shows "(let item = (\<lambda>env file. historyItem_completed env (req_file env file)
                        (''pdf-'' @ toString (date_now_upload env) @ ''-''
                           @ toString (math_random env) @ ''.docx''))
          in conversionHistory s3
               = item envC fileC # item envB fileB # item envA fileA # conversionHistory s0 \<and>
             take 3 (elements (body (snd (get_history s3))))
               = [item envC fileC, item envB fileB, item envA fileA]) \<and>
         (\<exists>new. conversionHistory (fst (post_convert env part s)) = new @ conversionHistory s)"
proof -
  have a: "conversionHistory s1 = historyItem_completed envA (req_file envA fileA)
        (''pdf-'' @ toString (date_now_upload envA) @ ''-'' @ toString (math_random envA) @ ''.docx'')
      # conversionHistory s0"
    using post_convert_200 [of envA fileA s0] assms(1,2) by simp
  have b: "conversionHistory s2 = historyItem_completed envB (req_file envB fileB)
        (''pdf-'' @ toString (date_now_upload envB) @ ''-'' @ toString (math_random envB) @ ''.docx'')
      # conversionHistory s1"
    using post_convert_200 [of envB fileB s1] assms(3,4) by simp
  have c: "conversionHistory s3 = historyItem_completed envC (req_file envC fileC)
        (''pdf-'' @ toString (date_now_upload envC) @ ''-'' @ toString (math_random envC) @ ''.docx'')
      # conversionHistory s2"
    using post_convert_200 [of envC fileC s2] assms(5,6) by simp
  have prepends: "\<exists>new. conversionHistory (fst (post_convert env part s)) = new @ conversionHistory s"
    using post_convert_history [of env part s] by blast
  show ?thesis
    unfolding Let_def using prepends
    by (simp add: a b c get_history_def slice_def res_json_def)
qed

theorem history_most_recent_first_witness:
  "status_code (snd (post_convert env_ok (Some upload_report) initial_state)) = 200 \<and>
   status_code (snd (post_convert env_ok (Some upload_scan)
      (fst (post_convert env_ok (Some upload_report) initial_state)))) = 200 \<and>
   status_code (snd (post_convert env_ok (Some upload_report)
      (fst (post_convert env_ok (Some upload_scan)
        (fst (post_convert env_ok (Some upload_report) initial_state)))))) = 200 \<and>
   map (field ''originalName'') (take 3 (elements (body (snd (get_history
      (fst (post_convert env_ok (Some upload_report)
        (fst (post_convert env_ok (Some upload_scan)
          (fst (post_convert env_ok (Some upload_report) initial_state)))))))))))
     = [Some (JString ''report.pdf''), Some (JString ''scan.pdf''), Some (JString ''report.pdf'')]"
proof -
  define s1 where "s1 = fst (post_convert env_ok (Some upload_report) initial_state)"
  define s2 where "s2 = fst (post_convert env_ok (Some upload_scan) s1)"
  define s3 where "s3 = fst (post_convert env_ok (Some upload_report) s2)"
  have ok: "status_code (snd (post_convert env_ok (Some f) s)) = 200"
    if "f = upload_report \<or> f = upload_scan" for f s
    using that
    by (auto simp: env_ok_def upload_report_def upload_scan_def post_convert_def upload_single_def
        fileFilter_def convert_handler_def try_block_def
        readFileSync_def writeFileSync_def unlinkSync_def Let_def
        res_json_def req_file_def fileSize_def path_join_def downloadDir_def storage_destination_def)
  have a: "post_convert env_ok (Some upload_report) initial_state
      = (s1, snd (post_convert env_ok (Some upload_report) initial_state))"
    by (simp add: s1_def)
  have b: "post_convert env_ok (Some upload_scan) s1 = (s2, snd (post_convert env_ok (Some upload_scan) s1))"
    by (simp add: s2_def)
  have c: "post_convert env_ok (Some upload_report) s2 = (s3, snd (post_convert env_ok (Some upload_report) s2))"
    by (simp add: s3_def)
  from history_most_recent_first [OF a ok b ok c ok]
  have "map (field ''originalName'') (take 3 (elements (body (snd (get_history s3)))))
      = [Some (JString ''report.pdf''), Some (JString ''scan.pdf''), Some (JString ''report.pdf'')]"
    by (simp add: Let_def field_def historyItem_completed_def req_file_simps(3)
        upload_report_def upload_scan_def)
  then show ?thesis
    using ok unfolding s3_def s2_def s1_def by simp
qed

end
